theory Spec2Isabelle
  imports Main "HOL-Library.AList"
begin

section \<open>The tracker: registry store and registry service\<close>

text \<open>
  Source: \<^verbatim>\<open>backend/tracker/models.py\<close>, \<^verbatim>\<open>backend/tracker/schemas.py\<close> and
  \<^verbatim>\<open>backend/tracker/main.py\<close>.

  A \<^verbatim>\<open>datetime\<close> is a whole number of microseconds since \<^verbatim>\<open>datetime.min\<close>
  (0001-01-01T00:00:00); \<^verbatim>\<open>datetime.max\<close> is 9999-12-31T23:59:59.999999, whose
  date has ordinal 3652059. Python raises \<^verbatim>\<open>OverflowError\<close> when a
  \<^verbatim>\<open>timedelta\<close> has more than 999999999 days in magnitude, and when a datetime
  subtraction leaves the range.
\<close>

type_synonym datetime = int

definition datetime_max :: datetime where
  "datetime_max = 3652059 * 86400000000 - 1"

datatype error = OverflowError | MultipleResultsFound | HTTPException nat string

definition timedelta_minutes :: "int \<Rightarrow> error + int" where
  "timedelta_minutes m =
     (if \<bar>m div 1440\<bar> > 999999999 then Inl OverflowError else Inr (m * 60000000))"

definition datetime_sub :: "datetime \<Rightarrow> int \<Rightarrow> error + datetime" where
  "datetime_sub t d =
     (let r = t - d in if r < 0 \<or> datetime_max < r then Inl OverflowError else Inr r)"

text \<open>
  The table \<^verbatim>\<open>peers\<close> of \<^verbatim>\<open>models.py\<close>. The column \<^verbatim>\<open>id\<close> is \<open>peer_id\<close>
  here (\<open>id\<close> is the identity function of HOL).
\<close>

record Peer =
  peer_id :: nat
  username :: string
  host :: string
  port :: int
  is_active :: bool
  last_heartbeat :: datetime
  created_at :: datetime

text \<open>The request body of \<^verbatim>\<open>/register\<close>: three fields, each checked for its type only.\<close>

datatype PeerRegister = PeerRegister (reg_username: string) (reg_host: string) (reg_port: int)

text \<open>
  The store is the list of rows in insertion order. A query
  \<^verbatim>\<open>select(Peer).where(c)\<close> is \<open>filter c\<close> over the rows;
  \<^verbatim>\<open>scalar_one_or_none()\<close> raises when the query has more than one row. The ORM hands
  out the rows themselves, so an assignment to an attribute of a selected object is an
  update of that row, written at \<^verbatim>\<open>commit\<close>. Storage failures are not modelled.
\<close>

fun scalar_one_or_none :: "'a list \<Rightarrow> error + 'a option" where
  "scalar_one_or_none [] = Inr None"
| "scalar_one_or_none [x] = Inr (Some x)"
| "scalar_one_or_none (x # y # zs) = Inl MultipleResultsFound"

text \<open>The next integer primary key: one more than the largest key in use.\<close>

definition next_id :: "Peer list \<Rightarrow> nat" where
  "next_id db = Suc (fold max (map peer_id db) 0)"

text \<open>
  \<^verbatim>\<open>cleanup_inactive_peers(db, threshold_minutes)\<close>, called at the clock reading
  \<open>now\<close>: the rows selected are those with \<^verbatim>\<open>last_heartbeat < threshold\<close> and
  \<^verbatim>\<open>is_active == True\<close>; each is marked inactive; the result is how many were selected.
\<close>

definition cleanup_inactive_peers :: "datetime \<Rightarrow> int \<Rightarrow> Peer list \<Rightarrow> error + (nat \<times> Peer list)" where
  "cleanup_inactive_peers now threshold_minutes db =
     (case timedelta_minutes threshold_minutes of
        Inl e \<Rightarrow> Inl e
      | Inr td \<Rightarrow>
          (case datetime_sub now td of
             Inl e \<Rightarrow> Inl e
           | Inr threshold \<Rightarrow>
               let selected = (\<lambda>p. last_heartbeat p < threshold \<and> is_active p);
                   inactive_peers = filter selected db
               in Inr (length inactive_peers,
                       map (\<lambda>p. if selected p then p\<lparr>is_active := False\<rparr> else p) db)))"

text \<open>
  \<^verbatim>\<open>register_peer\<close>: update the row of that username, or add one. The two clock
  readings of an insertion (the explicit \<^verbatim>\<open>last_heartbeat\<close> and the column default of
  \<^verbatim>\<open>created_at\<close>) are taken as the same instant \<open>now\<close>.
\<close>

definition register_peer :: "datetime \<Rightarrow> PeerRegister \<Rightarrow> Peer list \<Rightarrow> error + (Peer \<times> Peer list)" where
  "register_peer now peer_data db =
     (case scalar_one_or_none (filter (\<lambda>p. username p = reg_username peer_data) db) of
        Inl e \<Rightarrow> Inl e
      | Inr (Some peer) \<Rightarrow>
          let peer' = peer\<lparr>host := reg_host peer_data, port := reg_port peer_data,
                           is_active := True, last_heartbeat := now\<rparr>
          in Inr (peer', map (\<lambda>p. if username p = reg_username peer_data then peer' else p) db)
      | Inr None \<Rightarrow>
          let peer = \<lparr>peer_id = next_id db, username = reg_username peer_data,
                      host = reg_host peer_data, port = reg_port peer_data,
                      is_active = True, last_heartbeat = now, created_at = now\<rparr>
          in Inr (peer, db @ [peer]))"

text \<open>\<^verbatim>\<open>heartbeat\<close>: 404 for an unknown username; the answer carries the username.\<close>

definition heartbeat :: "datetime \<Rightarrow> string \<Rightarrow> Peer list \<Rightarrow> error + (string \<times> Peer list)" where
  "heartbeat now name db =
     (case scalar_one_or_none (filter (\<lambda>p. username p = name) db) of
        Inl e \<Rightarrow> Inl e
      | Inr None \<Rightarrow> Inl (HTTPException 404 ''Peer not found'')
      | Inr (Some peer) \<Rightarrow>
          let peer' = peer\<lparr>last_heartbeat := now, is_active := True\<rparr>
          in Inr (username peer', map (\<lambda>p. if username p = name then peer' else p) db))"

definition get_active_peers :: "Peer list \<Rightarrow> Peer list" where
  "get_active_peers db = filter is_active db"

text \<open>\<^verbatim>\<open>unregister_peer\<close>: 404 for an unknown username, else the row is marked inactive.\<close>

definition unregister_peer :: "string \<Rightarrow> Peer list \<Rightarrow> error + Peer list" where
  "unregister_peer name db =
     (case scalar_one_or_none (filter (\<lambda>p. username p = name) db) of
        Inl e \<Rightarrow> Inl e
      | Inr None \<Rightarrow> Inl (HTTPException 404 ''Peer not found'')
      | Inr (Some peer) \<Rightarrow>
          let peer' = peer\<lparr>is_active := False\<rparr>
          in Inr (map (\<lambda>p. if username p = name then peer' else p) db))"

section \<open>The peer node\<close>

text \<open>
  Source: \<^verbatim>\<open>backend/peer/node.py\<close>, class \<^verbatim>\<open>P2PNode\<close>.

  A connection is the pair \<^verbatim>\<open>(reader, writer)\<close> of one TCP stream, named by a number.
  What a peer sends is known to the node only through \<^verbatim>\<open>reader.read\<close> followed by
  \<^verbatim>\<open>json.loads(data.decode())\<close>; the outcome of the two together is a \<open>recv\<close>: the
  read raised, it returned no bytes, it returned bytes that do not decode, or it returned
  bytes that decode to a JSON value. Numbers that are not integers are left out.
\<close>

type_synonym chan = nat

datatype json = JNull | JBool bool | JNum int | JStr string
  | JList "json list" | JDict "(string \<times> json) list"

datatype recv = RecvError | RecvEof | RecvUndecodable | RecvJson json

text \<open>
  \<^verbatim>\<open>x.get(k)\<close>: the value under \<open>k\<close> or \<^verbatim>\<open>None\<close> for a dict; any other decoded
  value has no attribute \<^verbatim>\<open>get\<close> (\<^verbatim>\<open>AttributeError\<close>, the result \<open>None\<close> here).
\<close>

fun dict_get :: "json \<Rightarrow> string \<Rightarrow> json option" where
  "dict_get (JDict kvs) k = Some (case map_of kvs k of None \<Rightarrow> JNull | Some v \<Rightarrow> v)"
| "dict_get v k = None"

text \<open>
  The keys of \<^verbatim>\<open>connected_peers\<close>. Python hashes \<^verbatim>\<open>None\<close>, booleans, integers
  and strings, with \<^verbatim>\<open>True == 1\<close> and \<^verbatim>\<open>False == 0\<close> the same key as the integer;
  a list or a dict as a key raises \<^verbatim>\<open>TypeError\<close> (the result \<open>None\<close> here).
\<close>

datatype key = KNone | KInt int | KStr string

fun dict_key :: "json \<Rightarrow> key option" where
  "dict_key JNull = Some KNone"
| "dict_key (JBool b) = Some (KInt (if b then 1 else 0))"
| "dict_key (JNum n) = Some (KInt n)"
| "dict_key (JStr u) = Some (KStr u)"
| "dict_key (JList vs) = None"
| "dict_key (JDict kvs) = None"

text \<open>
  What a call does to the world outside the object: closing a writer, writing a frame,
  calling an observer callback, sending a request to the tracker, creating the task of a
  receive loop. Every operation returns the list of its effects in the order they happen.
  \<open>Written\<close> records that \<^verbatim>\<open>writer.write\<close> was called with the frame, whether or
  not the write then succeeds; \<open>Notified\<close> that a callback was called, whether or not
  it then raises.
\<close>

datatype event = PeerConnected key | PeerDisconnected key | MessageReceived key json json

datatype tracker_request = Register string int | Unregister string | GetPeers

datatype effect = Closed chan | Written chan json | Notified event
  | TrackerCall tracker_request | TaskCreated key chan

datatype task = Running | Finished | Cancelled

datatype http_client = ClientOpen | ClientClosed

datatype http_outcome = HttpError | HttpStatus nat

text \<open>
  How far a coroutine got: it returned, it raised, or it is suspended in a read that has
  not completed.
\<close>

datatype status = Returned | Raised | Suspended

text \<open>
  The object. A callback is a function that tells whether the awaited call returns
  (\<open>True\<close>) or raises (\<open>False\<close>); the field is \<open>None\<close> when no callback is set.
  The attribute \<^verbatim>\<open>username\<close> is \<open>node_username\<close> here.
\<close>

record P2PNode =
  node_username :: string
  peer_port :: int
  tracker_url :: string
  is_running :: bool
  connected_peers :: "(key \<times> chan) list"
  http_client :: "http_client option"
  on_message_callback :: "(key \<times> json \<times> json \<Rightarrow> bool) option"
  on_peer_connected_callback :: "(key \<Rightarrow> bool) option"
  on_peer_disconnected_callback :: "(key \<Rightarrow> bool) option"
  server_task :: "task option"
  heartbeat_task :: "task option"

definition P2PNode_init :: "string \<Rightarrow> int \<Rightarrow> string \<Rightarrow> P2PNode" where
  "P2PNode_init name p url =
     \<lparr>node_username = name, peer_port = p, tracker_url = url, is_running = False,
      connected_peers = [], http_client = None, on_message_callback = None,
      on_peer_connected_callback = None, on_peer_disconnected_callback = None,
      server_task = None, heartbeat_task = None\<rparr>"

text \<open>The three frames of the wire protocol, as the node builds them.\<close>

definition handshake_frame :: "string \<Rightarrow> json" where
  "handshake_frame name = JDict [(''type'', JStr ''handshake''), (''username'', JStr name)]"

definition handshake_ack_frame :: "string \<Rightarrow> json" where
  "handshake_ack_frame name = JDict [(''type'', JStr ''handshake_ack''), (''username'', JStr name)]"

definition message_frame :: "string \<Rightarrow> string \<Rightarrow> json" where
  "message_frame content timestamp =
     JDict [(''type'', JStr ''message''), (''content'', JStr content),
            (''timestamp'', JStr timestamp)]"

text \<open>\<^verbatim>\<open>if self.cb: await self.cb(arg)\<close>: whether control continues, and the call made.\<close>

definition invoke :: "('a \<Rightarrow> bool) option \<Rightarrow> 'a \<Rightarrow> event \<Rightarrow> bool \<times> effect list" where
  "invoke cb arg ev = (case cb of None \<Rightarrow> (True, []) | Some f \<Rightarrow> (f arg, [Notified ev]))"

text \<open>
  \<^verbatim>\<open>_start_server\<close>: the state its task settles in, serving forever when the port
  could be bound, finished after the error message when not.
\<close>

definition start_server :: "bool \<Rightarrow> task" where
  "start_server bind_ok = (if bind_ok then Running else Finished)"

text \<open>
  \<^verbatim>\<open>register_to_tracker\<close>: \<open>lookup_ok\<close> says whether the local address was found,
  \<open>response\<close> what the request came to. Every exception is caught and gives \<open>False\<close>.
\<close>

definition register_to_tracker :: "bool \<Rightarrow> http_outcome \<Rightarrow> P2PNode \<Rightarrow> bool \<times> effect list" where
  "register_to_tracker lookup_ok response s =
     (if \<not> lookup_ok then (False, [])
      else if http_client s \<noteq> Some ClientOpen then (False, [])
      else (response = HttpStatus 200,
            [TrackerCall (Register (node_username s) (peer_port s))]))"

text \<open>\<^verbatim>\<open>task.cancel()\<close>: a task that is still running is cancelled, others stay.\<close>

fun cancel :: "task \<Rightarrow> task" where
  "cancel Running = Cancelled"
| "cancel t = t"

text \<open>
  \<^verbatim>\<open>stop\<close>. The unregistration is sent when there is an open client (with a closed
  one the call raises, which is ignored like every other failure of it); every writer in
  the table is closed, in the order of the table, a failure of a close being ignored;
  the table is cleared; the client is closed; the heartbeat task is cancelled. Nothing
  is done to \<open>server_task\<close>.
\<close>

definition stop :: "P2PNode \<Rightarrow> P2PNode \<times> effect list" where
  "stop s =
     (let unregister = (if http_client s = Some ClientOpen
                        then [TrackerCall (Unregister (node_username s))] else []);
          closes = map (\<lambda>(peer_username, ch). Closed ch) (connected_peers s)
      in (s\<lparr>is_running := False, connected_peers := [],
            http_client := map_option (\<lambda>c. ClientClosed) (http_client s),
            heartbeat_task := map_option cancel (heartbeat_task s)\<rparr>,
          unregister @ closes))"

text \<open>
  \<^verbatim>\<open>start\<close>. \<open>client_ok\<close> is false when creating the HTTP client raises, the one
  way into the \<^verbatim>\<open>except\<close> branch, which calls \<^verbatim>\<open>stop\<close>.
\<close>

definition start :: "bool \<Rightarrow> bool \<Rightarrow> bool \<Rightarrow> http_outcome \<Rightarrow> P2PNode \<Rightarrow> bool \<times> P2PNode \<times> effect list" where
  "start client_ok bind_ok lookup_ok response s =
     (if \<not> client_ok then (let (s', e) = stop s in (False, s', e))
      else
        let s1 = s\<lparr>http_client := Some ClientOpen, is_running := True,
                   server_task := Some (start_server bind_ok)\<rparr>;
            (registered, e) = register_to_tracker lookup_ok response s1
        in if \<not> registered then (False, s1, e)
           else (True, s1\<lparr>heartbeat_task := Some Running\<rparr>, e))"

text \<open>
  The \<^verbatim>\<open>while\<close> loop of \<^verbatim>\<open>_listen_peer_messages\<close> over the outcomes of its reads.
  The result says whether the loop was left (\<open>True\<close>) or is waiting for a read beyond
  the outcomes given (\<open>False\<close>), and lists the callbacks made.
\<close>

fun receive_loop :: "P2PNode \<Rightarrow> key \<Rightarrow> recv list \<Rightarrow> bool \<times> effect list" where
  "receive_loop s peer_username [] = (\<not> is_running s, [])"
| "receive_loop s peer_username (r # reads) =
     (if \<not> is_running s then (True, [])
      else case r of
        RecvError \<Rightarrow> (True, [])
      | RecvEof \<Rightarrow> (True, [])
      | RecvUndecodable \<Rightarrow> (True, [])
      | RecvJson message \<Rightarrow>
          (case (dict_get message ''content'', dict_get message ''timestamp'') of
             (Some content, Some timestamp) \<Rightarrow>
               let (ok, e) = invoke (on_message_callback s) (peer_username, content, timestamp)
                               (MessageReceived peer_username content timestamp)
               in if \<not> ok then (True, e)
                  else (let (left, e') = receive_loop s peer_username reads in (left, e @ e'))
           | _ \<Rightarrow> (True, [])))"

text \<open>
  \<^verbatim>\<open>_listen_peer_messages\<close>: the loop, then the \<^verbatim>\<open>finally\<close> block. An exception
  inside the loop is caught; one raised by the callback of the \<^verbatim>\<open>finally\<close> block
  leaves the coroutine.
\<close>

definition listen_peer_messages :: "key \<Rightarrow> recv list \<Rightarrow> P2PNode \<Rightarrow> status \<times> P2PNode \<times> effect list" where
  "listen_peer_messages peer_username reads s =
     (case receive_loop s peer_username reads of
        (False, e) \<Rightarrow> (Suspended, s, e)
      | (True, e) \<Rightarrow>
          if peer_username \<in> set (map fst (connected_peers s)) then
            let s' = s\<lparr>connected_peers := AList.delete peer_username (connected_peers s)\<rparr>;
                (ok, e') = invoke (on_peer_disconnected_callback s') peer_username
                             (PeerDisconnected peer_username)
            in (if ok then Returned else Raised, s', e @ e')
          else (Returned, s, e))"

text \<open>
  \<^verbatim>\<open>_handle_peer_connection\<close> for the connection \<open>ch\<close>: \<open>first\<close> is the outcome of
  the first read, \<open>write_ok\<close> whether writing the acknowledgement succeeds, \<open>reads\<close> the
  outcomes of the reads of the receive loop. Every exception of the \<^verbatim>\<open>try\<close> block is
  caught; the \<^verbatim>\<open>finally\<close> block closes the writer (a failure of
  \<^verbatim>\<open>wait_closed\<close> after the close is not modelled).
\<close>

definition handle_peer_connection :: "bool \<Rightarrow> chan \<Rightarrow> recv \<Rightarrow> recv list \<Rightarrow> P2PNode \<Rightarrow> status \<times> P2PNode \<times> effect list" where
  "handle_peer_connection write_ok ch first reads s =
     (case first of
        RecvJson handshake \<Rightarrow>
          (case dict_get handshake ''type'' of
             None \<Rightarrow> (Returned, s, [Closed ch])
           | Some t \<Rightarrow>
               if t = JStr ''handshake'' then
                 (case Option.bind (dict_get handshake ''username'') dict_key of
                    None \<Rightarrow> (Returned, s, [Closed ch])
                  | Some peer_username \<Rightarrow>
                      let s1 = s\<lparr>connected_peers :=
                                   AList.update peer_username ch (connected_peers s)\<rparr>;
                          (ok, e1) = invoke (on_peer_connected_callback s1) peer_username
                                       (PeerConnected peer_username)
                      in if \<not> ok then (Returned, s1, e1 @ [Closed ch])
                         else
                           let e2 = [Written ch (handshake_ack_frame (node_username s1))]
                           in if \<not> write_ok then (Returned, s1, e1 @ e2 @ [Closed ch])
                              else
                                (case listen_peer_messages peer_username reads s1 of
                                   (Suspended, s2, e3) \<Rightarrow> (Suspended, s2, e1 @ e2 @ e3)
                                 | (st, s2, e3) \<Rightarrow> (Returned, s2, e1 @ e2 @ e3 @ [Closed ch])))
               else (Returned, s, [Closed ch]))
      | _ \<Rightarrow> (Returned, s, [Closed ch]))"

text \<open>
  \<^verbatim>\<open>get_peers_from_tracker\<close>: \<open>response\<close> is the list the tracker answers with, or
  \<open>None\<close> when the request fails or the status is not 200.
\<close>

definition get_peers_from_tracker :: "Peer list option \<Rightarrow> P2PNode \<Rightarrow> Peer list \<times> effect list" where
  "get_peers_from_tracker response s =
     (if http_client s \<noteq> Some ClientOpen then ([], [])
      else (case response of
              None \<Rightarrow> ([], [TrackerCall GetPeers])
            | Some peers \<Rightarrow>
                (filter (\<lambda>p. username p \<noteq> node_username s) peers, [TrackerCall GetPeers])))"

text \<open>
  \<^verbatim>\<open>connect_to_peer\<close>: \<open>dial host port\<close> is the connection that
  \<^verbatim>\<open>asyncio.open_connection\<close> returns, \<open>None\<close> when it raises; \<open>write_ok\<close> whether
  writing the handshake succeeds; \<open>ack\<close> the outcome of the read that follows. The
  receive loop of the new connection is started as a task of its own.
\<close>

definition connect_to_peer :: "Peer list option \<Rightarrow> (string \<Rightarrow> int \<Rightarrow> chan option) \<Rightarrow> bool \<Rightarrow> recv \<Rightarrow> string \<Rightarrow> P2PNode \<Rightarrow> bool \<times> P2PNode \<times> effect list" where
  "connect_to_peer tracker_response dial write_ok ack peer_username s =
     (let (peers, e0) = get_peers_from_tracker tracker_response s
      in case find (\<lambda>p. username p = peer_username) peers of
           None \<Rightarrow> (False, s, e0)
         | Some peer_info \<Rightarrow>
             (case dial (host peer_info) (port peer_info) of
                None \<Rightarrow> (False, s, e0)
              | Some ch \<Rightarrow>
                  let e1 = [Written ch (handshake_frame (node_username s))]
                  in if \<not> write_ok then (False, s, e0 @ e1)
                     else
                       (case ack of
                          RecvJson response \<Rightarrow>
                            (case dict_get response ''type'' of
                               None \<Rightarrow> (False, s, e0 @ e1)
                             | Some t \<Rightarrow>
                                 if t = JStr ''handshake_ack'' then
                                   let s1 = s\<lparr>connected_peers :=
                                                AList.update (KStr peer_username) ch
                                                  (connected_peers s)\<rparr>;
                                       (ok, e2) = invoke (on_peer_connected_callback s1)
                                                    (KStr peer_username)
                                                    (PeerConnected (KStr peer_username))
                                   in if \<not> ok then (False, s1, e0 @ e1 @ e2)
                                      else (True, s1,
                                            e0 @ e1 @ e2 @ [TaskCreated (KStr peer_username) ch])
                                 else (False, s, e0 @ e1))
                        | _ \<Rightarrow> (False, s, e0 @ e1))))"

text \<open>
  \<^verbatim>\<open>send_message\<close>: \<open>write_ok ch\<close> says whether \<^verbatim>\<open>write\<close> and \<^verbatim>\<open>drain\<close> on the
  connection \<open>ch\<close> succeed, \<open>now\<close> is the clock reading in ISO format. \<^verbatim>\<open>broadcast_message\<close>
  passes each key of the table, whatever its type, so the peer is a \<open>key\<close>.
\<close>

definition send_message :: "(chan \<Rightarrow> bool) \<Rightarrow> string \<Rightarrow> key \<Rightarrow> string \<Rightarrow> P2PNode \<Rightarrow> bool \<times> P2PNode \<times> effect list" where
  "send_message write_ok now peer_username content s =
     (case map_of (connected_peers s) peer_username of
        None \<Rightarrow> (False, s, [])
      | Some ch \<Rightarrow> (write_ok ch, s, [Written ch (message_frame content now)]))"

text \<open>The \<^verbatim>\<open>for\<close> loop of \<^verbatim>\<open>broadcast_message\<close> over the snapshot of the keys.\<close>

fun broadcast_loop :: "(chan \<Rightarrow> bool) \<Rightarrow> string \<Rightarrow> string \<Rightarrow> key list \<Rightarrow> P2PNode \<Rightarrow> bool list \<times> P2PNode \<times> effect list" where
  "broadcast_loop write_ok now content [] s = ([], s, [])"
| "broadcast_loop write_ok now content (peer_username # rest) s =
     (let (result, s1, e1) = send_message write_ok now peer_username content s;
          (results, s2, e2) = broadcast_loop write_ok now content rest s1
      in (result # results, s2, e1 @ e2))"

definition broadcast_message :: "(chan \<Rightarrow> bool) \<Rightarrow> string \<Rightarrow> string \<Rightarrow> P2PNode \<Rightarrow> bool \<times> P2PNode \<times> effect list" where
  "broadcast_message write_ok now content s =
     (if connected_peers s = [] then (False, s, [])
      else
        let (results, s', e) = broadcast_loop write_ok now content (map fst (connected_peers s)) s
        in (list_all (\<lambda>r. r) results, s', e))"

text \<open>
  \<^verbatim>\<open>disconnect_from_peer\<close>: \<open>close_ok\<close> is false when closing the writer raises,
  which leaves the entry in the table.
\<close>

definition disconnect_from_peer :: "bool \<Rightarrow> key \<Rightarrow> P2PNode \<Rightarrow> bool \<times> P2PNode \<times> effect list" where
  "disconnect_from_peer close_ok peer_username s =
     (case map_of (connected_peers s) peer_username of
        None \<Rightarrow> (False, s, [])
      | Some ch \<Rightarrow>
          if \<not> close_ok then (False, s, [Closed ch])
          else
            let s1 = s\<lparr>connected_peers := AList.delete peer_username (connected_peers s)\<rparr>;
                (ok, e) = invoke (on_peer_disconnected_callback s1) peer_username
                            (PeerDisconnected peer_username)
            in (ok, s1, Closed ch # e))"

text \<open>
  The states of a node: a new object, with any callbacks set, after any calls of its
  methods, any inbound connections and any runs of receive loops, whatever the
  environment answers.
\<close>

inductive reachable :: "P2PNode \<Rightarrow> bool" where
  r_init: "reachable (P2PNode_init name p url)"
| r_callbacks: "reachable s \<Longrightarrow>
     reachable (s\<lparr>on_message_callback := m, on_peer_connected_callback := c,
                  on_peer_disconnected_callback := d\<rparr>)"
| r_start: "reachable s \<Longrightarrow> start client_ok bind_ok lookup_ok response s = (ok, s', e) \<Longrightarrow>
     reachable s'"
| r_stop: "reachable s \<Longrightarrow> stop s = (s', e) \<Longrightarrow> reachable s'"
| r_handle: "reachable s \<Longrightarrow> handle_peer_connection write_ok ch first reads s = (st, s', e) \<Longrightarrow>
     reachable s'"
| r_listen: "reachable s \<Longrightarrow> listen_peer_messages peer_username reads s = (st, s', e) \<Longrightarrow>
     reachable s'"
| r_connect: "reachable s \<Longrightarrow>
     connect_to_peer tracker_response dial write_ok ack name s = (ok, s', e) \<Longrightarrow> reachable s'"
| r_send: "reachable s \<Longrightarrow> send_message writes now peer_username content s = (ok, s', e) \<Longrightarrow>
     reachable s'"
| r_broadcast: "reachable s \<Longrightarrow> broadcast_message writes now content s = (ok, s', e) \<Longrightarrow>
     reachable s'"
| r_disconnect: "reachable s \<Longrightarrow> disconnect_from_peer close_ok peer_username s = (ok, s', e) \<Longrightarrow>
     reachable s'"

section \<open>Vocabulary of the statements about the registry\<close>


text \<open>
  \<open>only_deactivates db db'\<close>: the rows of \<open>db'\<close> are the rows of \<open>db\<close>, in the same
  order, each one unchanged or changed in \<open>is_active\<close> alone, to \<open>False\<close>.
\<close>

definition only_deactivates :: "Peer list \<Rightarrow> Peer list \<Rightarrow> bool" where
  "only_deactivates db db' \<longleftrightarrow> list_all2 (\<lambda>p q. q = p \<or> q = p\<lparr>is_active := False\<rparr>) db db'"

text \<open>Rows used as concrete inputs; times are microseconds.\<close>

definition alice :: Peer where
  "alice = \<lparr>peer_id = 1, username = ''alice'', host = ''10.0.0.1'', port = 5000,
            is_active = True, last_heartbeat = 1000000000, created_at = 1000000000\<rparr>"

definition carol :: Peer where
  "carol = \<lparr>peer_id = 2, username = ''carol'', host = ''10.0.0.3'', port = 5002,
            is_active = False, last_heartbeat = 1100000000, created_at = 1100000000\<rparr>"

definition bob :: Peer where
  "bob = \<lparr>peer_id = 3, username = ''bob'', host = ''10.0.0.2'', port = 5001,
          is_active = True, last_heartbeat = 1150000000, created_at = 1150000000\<rparr>"

definition anonymous :: Peer where
  "anonymous = \<lparr>peer_id = 3, username = [], host = ''10.0.0.9'', port = 5009,
                is_active = True, last_heartbeat = 1150000000, created_at = 1150000000\<rparr>"

section \<open>Vocabulary of the statements about the node\<close>



text \<open>The effects that are a \<^verbatim>\<open>peer_disconnected\<close> notification.\<close>

fun is_disconnect :: "effect \<Rightarrow> bool" where
  "is_disconnect (Notified (PeerDisconnected u)) = True"
| "is_disconnect x = False"

text \<open>
  A read that the receive loop of peer \<open>u\<close> takes as a frame and goes on after: it
  decodes to a dict, and the message callback, when one is set, returns.
\<close>

definition accepted :: "P2PNode \<Rightarrow> key \<Rightarrow> recv \<Rightarrow> bool" where
  "accepted s u r \<longleftrightarrow>
     (\<exists>m c t. r = RecvJson m \<and> dict_get m ''content'' = Some c \<and> dict_get m ''timestamp'' = Some t
        \<and> (\<forall>f. on_message_callback s = Some f \<longrightarrow> f (u, c, t)))"

text \<open>End of stream (a read of no bytes) or bytes that do not decode.\<close>

definition stream_end :: "recv \<Rightarrow> bool" where
  "stream_end r \<longleftrightarrow> r = RecvEof \<or> r = RecvUndecodable"

text \<open>
  Concrete nodes: alice's node with the three callbacks set, as the peer API sets them
  (callbacks that return); the same after a successful \<^verbatim>\<open>start\<close>; with a connection to
  bob on connection 1; with carol on connection 2 as well. \<open>dial_one\<close> answers every
  dial with connection 1; \<open>fails_on_one\<close> lets every write fail on connection 1 only.
\<close>

definition observed_node :: P2PNode where
  "observed_node = (P2PNode_init ''alice'' 5000 ''http://localhost:8000'')
     \<lparr>on_message_callback := Some (\<lambda>m. True), on_peer_connected_callback := Some (\<lambda>u. True),
      on_peer_disconnected_callback := Some (\<lambda>u. True)\<rparr>"

definition started_node :: P2PNode where
  "started_node = observed_node\<lparr>is_running := True, http_client := Some ClientOpen,
      server_task := Some Running, heartbeat_task := Some Running\<rparr>"

definition bob_connected_node :: P2PNode where
  "bob_connected_node = started_node\<lparr>connected_peers := [(KStr ''bob'', 1)]\<rparr>"

definition bob_carol_node :: P2PNode where
  "bob_carol_node = started_node\<lparr>connected_peers := [(KStr ''bob'', 1), (KStr ''carol'', 2)]\<rparr>"

definition dial_one :: "string \<Rightarrow> int \<Rightarrow> chan option" where
  "dial_one h p = Some 1"

definition fails_on_one :: "chan \<Rightarrow> bool" where
  "fails_on_one ch \<longleftrightarrow> ch \<noteq> 1"

section \<open>Properties of the registry\<close>

lemma filter_username_unknown:
  "name \<notin> set (map username db) \<Longrightarrow> filter (\<lambda>q. username q = name) db = []"
  by (auto simp: filter_empty_conv)

lemma filter_username_distinct:
  "distinct (map username db) \<Longrightarrow> name \<in> set (map username db) \<Longrightarrow>
     \<exists>p. p \<in> set db \<and> username p = name \<and> filter (\<lambda>q. username q = name) db = [p]"
proof (induction db)
  case Nil
  then show ?case by simp
next
  case (Cons a db)
  show ?case
  proof (cases "username a = name")
    case True
    with Cons.prems have "name \<notin> set (map username db)"
      by simp
    then have "filter (\<lambda>q. username q = name) db = []"
      by (rule filter_username_unknown)
    with True show ?thesis by auto
  next
    case False
    with Cons show ?thesis by auto
  qed
qed

lemma only_deactivates_map:
  "(\<And>q. q \<in> set db \<Longrightarrow> f q = q \<or> f q = q\<lparr>is_active := False\<rparr>) \<Longrightarrow>
     only_deactivates db (map f db)"
  unfolding only_deactivates_def by (induction db) simp_all

lemma filter_single_all:
  assumes "filter P xs = [x]" and "y \<in> set xs" and "P y"
  shows "y = x"
proof -
  from assms(1) have "set (filter P xs) = {x}" by (simp only: list.set)
  then have "{q \<in> set xs. P q} = {x}" by simp
  with assms(2,3) show ?thesis by blast
qed

lemma filter_single_holds:
  assumes "filter P xs = [x]"
  shows "P x \<and> x \<in> set xs"
proof -
  from assms have "set (filter P xs) = {x}" by (simp only: list.set)
  then have "{q \<in> set xs. P q} = {x}" by simp
  then show ?thesis by blast
qed

lemma scalar_one_or_none_Some:
  "scalar_one_or_none xs = Inr (Some x) \<Longrightarrow> xs = [x]"
  by (cases xs rule: scalar_one_or_none.cases) auto

lemma scalar_one_or_none_None:
  "scalar_one_or_none xs = Inr None \<Longrightarrow> xs = []"
  by (cases xs rule: scalar_one_or_none.cases) auto

lemma register_peer_cases:
  "register_peer now d db =
     (case filter (\<lambda>q. username q = reg_username d) db of
        [] \<Rightarrow> (let peer = \<lparr>peer_id = next_id db, username = reg_username d,
                      host = reg_host d, port = reg_port d,
                      is_active = True, last_heartbeat = now, created_at = now\<rparr>
               in Inr (peer, db @ [peer]))
      | [old] \<Rightarrow> (let peer' = old\<lparr>host := reg_host d, port := reg_port d,
                           is_active := True, last_heartbeat := now\<rparr>
                 in Inr (peer', map (\<lambda>q. if username q = reg_username d then peer' else q) db))
      | _ \<Rightarrow> Inl MultipleResultsFound)"
  by (cases "filter (\<lambda>q. username q = reg_username d) db" rule: scalar_one_or_none.cases)
     (simp_all add: register_peer_def)

lemma register_peer_keeps:
  assumes "register_peer now d db = Inr (p, db1)"
  shows "set (map username db) \<subseteq> set (map username db1) \<and> length db \<le> length db1"
proof (cases "filter (\<lambda>q. username q = reg_username d) db" rule: scalar_one_or_none.cases)
  case 1
  with assms have "db1 = db @ [p]"
    by (auto simp: register_peer_cases Let_def)
  then show ?thesis by auto
next
  case (2 old)
  from filter_single_holds [OF 2] have o: "username old = reg_username d"
    by simp
  from 2 assms have "db1 = map (\<lambda>q. if username q = reg_username d then p else q) db"
    and "username p = username old"
    by (auto simp: register_peer_cases Let_def)
  with o have "map username db1 = map username db" by simp
  then show ?thesis by (metis length_map order_refl)
next
  case (3 x y zs)
  with assms show ?thesis by (simp add: register_peer_cases)
qed

lemma heartbeat_keeps:
  assumes "heartbeat now name db = Inr (r, db2)"
  shows "map username db2 = map username db"
proof -
  from assms obtain peer where f: "filter (\<lambda>q. username q = name) db = [peer]"
    and d: "db2 = map (\<lambda>q. if username q = name
                               then peer\<lparr>last_heartbeat := now, is_active := True\<rparr> else q) db"
    by (auto simp: heartbeat_def Let_def split: sum.splits option.splits
             dest: scalar_one_or_none_Some)
  from filter_single_holds [OF f] have "username peer = name" by simp
  with d show ?thesis by simp
qed

lemma cleanup_keeps:
  assumes "cleanup_inactive_peers now m db = Inr (n, db3)"
  shows "map username db3 = map username db \<and> only_deactivates db db3"
proof -
  from assms obtain th
    where "db3 = map (\<lambda>p. if last_heartbeat p < th \<and> is_active p
                             then p\<lparr>is_active := False\<rparr> else p) db"
    by (auto simp: cleanup_inactive_peers_def Let_def split: sum.splits)
  then show ?thesis
    by (simp add: only_deactivates_map)
qed

lemma unregister_peer_keeps:
  assumes "unregister_peer name db = Inr db4"
  shows "map username db4 = map username db \<and> only_deactivates db db4"
proof -
  from assms obtain peer where f: "filter (\<lambda>q. username q = name) db = [peer]"
    and d: "db4 = map (\<lambda>q. if username q = name then peer\<lparr>is_active := False\<rparr> else q) db"
    by (auto simp: unregister_peer_def Let_def split: sum.splits option.splits
             dest: scalar_one_or_none_Some)
  from f have same: "\<And>q. q \<in> set db \<Longrightarrow> username q = name \<Longrightarrow> q = peer"
    by (rule filter_single_all)
  from filter_single_holds [OF f] have "username peer = name" by simp
  with d have "map username db4 = map username db" by simp
  moreover have "only_deactivates db db4"
    unfolding d by (rule only_deactivates_map) (use same in auto)
  ultimately show ?thesis by simp
qed

lemma unregister_peer_unknown:
  "name \<notin> set (map username db) \<Longrightarrow> unregister_peer name db = Inl (HTTPException 404 ''Peer not found'')"
  by (simp add: unregister_peer_def filter_username_unknown del: set_map)

lemma map_replace_single:
  assumes "filter P xs = [x]"
  shows "filter P (map (\<lambda>q. if P q then y else q) xs) = (if P y then [y] else [])"
  using assms
proof (induction xs)
  case Nil
  then show ?case by simp
next
  case (Cons a xs)
  show ?case
  proof (cases "P a")
    case True
    with Cons.prems have e: "filter P xs = []" by simp
    then have "\<forall>q\<in>set xs. \<not> P q" by (simp add: filter_empty_conv)
    then have "map (\<lambda>q. if P q then y else q) xs = xs" by (simp add: map_idI)
    with True e show ?thesis by simp
  next
    case False
    with Cons show ?thesis by simp
  qed
qed

lemma unregister_peer_known:
  assumes "distinct (map username db)" and "name \<in> set (map username db)"
  shows "\<exists>db5. unregister_peer name db = Inr db5 \<and> unregister_peer name db5 = Inr db5
           \<and> (\<forall>q\<in>set db5. username q = name \<longrightarrow> \<not> is_active q)"
proof -
  from filter_username_distinct [OF assms] obtain p
    where p: "p \<in> set db" "username p = name" "filter (\<lambda>q. username q = name) db = [p]"
    by blast
  define p' where "p' = p\<lparr>is_active := False\<rparr>"
  define db5 where "db5 = map (\<lambda>q. if username q = name then p' else q) db"
  from p have u1: "unregister_peer name db = Inr db5"
    by (simp add: unregister_peer_def db5_def p'_def)
  from p(2) have n: "username p' = name" by (simp add: p'_def)
  from map_replace_single [OF p(3), of p'] n
  have f5: "filter (\<lambda>q. username q = name) db5 = [p']" by (simp add: db5_def)
  have "map (\<lambda>q. if username q = name then p'\<lparr>is_active := False\<rparr> else q) db5 = db5"
    by (rule map_idI) (auto simp: db5_def p'_def)
  with f5 have u2: "unregister_peer name db5 = Inr db5"
    by (simp add: unregister_peer_def)
  have "\<forall>q\<in>set db5. username q = name \<longrightarrow> \<not> is_active q"
    by (auto simp: db5_def p'_def)
  with u1 u2 show ?thesis by blast
qed

lemma unregister_peer_inactive:
  assumes "distinct (map username db)" and "p \<in> set db" and "username p = name" and "\<not> is_active p"
  shows "unregister_peer name db = Inr db"
proof -
  from assms(2,3) have "name \<in> set (map username db)" by auto
  from filter_username_distinct [OF assms(1) this] obtain p0
    where p0: "filter (\<lambda>q. username q = name) db = [p0]" by blast
  with assms(2,3) have "p = p0" by (auto dest: filter_single_all [OF p0])
  with assms(4) have "p0\<lparr>is_active := False\<rparr> = p0" by simp
  moreover have "\<And>q. q \<in> set db \<Longrightarrow> username q = name \<Longrightarrow> q = p0"
    by (rule filter_single_all [OF p0])
  ultimately have "\<And>q. q \<in> set db \<Longrightarrow>
      (if username q = name then p0\<lparr>is_active := False\<rparr> else q) = q"
    by metis
  then have "map (\<lambda>q. if username q = name then p0\<lparr>is_active := False\<rparr> else q) db = db"
    by (rule map_idI)
  with p0 show ?thesis by (simp add: unregister_peer_def)
qed

lemma distinct_map_replace:
  assumes "distinct (map username db)" and "username y = name"
  shows "distinct (map username (map (\<lambda>q. if username q = name then y else q) db))"
proof -
  from assms(2) have "map username (map (\<lambda>q. if username q = name then y else q) db) = map username db"
    by (induction db) auto
  then show ?thesis by (simp only: assms(1))
qed







text \<open>
  Claim C9. No registry operation removes a row. A registration keeps every registered
  username and never shortens the store; a heartbeat, a sweep and an unregistration leave
  the list of usernames as it was; a sweep and an unregistration change rows in
  \<open>is_active\<close> alone, to \<open>False\<close>. Unregistering an unknown username fails with the
  404 "Peer not found". With unique usernames, unregistering a known username returns,
  leaves its row inactive, and a second unregistration returns the same store; where the
  row is inactive already the store is unchanged.
\<close>

theorem registry_never_removes:
  "(register_peer now d db = Inr (p, db1) \<longrightarrow>
      set (map username db) \<subseteq> set (map username db1) \<and> length db \<le> length db1)
   \<and> (heartbeat now name db = Inr (r, db2) \<longrightarrow> map username db2 = map username db)
   \<and> (cleanup_inactive_peers now m db = Inr (n, db3) \<longrightarrow>
        map username db3 = map username db \<and> only_deactivates db db3)
   \<and> (unregister_peer name db = Inr db4 \<longrightarrow>
        map username db4 = map username db \<and> only_deactivates db db4)
   \<and> (name \<notin> set (map username db) \<longrightarrow>
        unregister_peer name db = Inl (HTTPException 404 ''Peer not found''))
   \<and> (distinct (map username db) \<and> name \<in> set (map username db) \<longrightarrow>
        (\<exists>db5. unregister_peer name db = Inr db5 \<and> unregister_peer name db5 = Inr db5
           \<and> (\<forall>q\<in>set db5. username q = name \<longrightarrow> \<not> is_active q)))
   \<and> (distinct (map username db) \<and> q \<in> set db \<and> username q = name \<and> \<not> is_active q \<longrightarrow>
        unregister_peer name db = Inr db)"
proof (intro conjI impI)
  assume "register_peer now d db = Inr (p, db1)"
  then show "set (map username db) \<subseteq> set (map username db1)" and "length db \<le> length db1"
    using register_peer_keeps by blast+
next
  assume "heartbeat now name db = Inr (r, db2)"
  then show "map username db2 = map username db" by (rule heartbeat_keeps)
next
  assume "cleanup_inactive_peers now m db = Inr (n, db3)"
  then show "map username db3 = map username db" and "only_deactivates db db3"
    using cleanup_keeps by blast+
next
  assume "unregister_peer name db = Inr db4"
  then show "map username db4 = map username db" and "only_deactivates db db4"
    using unregister_peer_keeps by blast+
next
  assume "name \<notin> set (map username db)"
  then show "unregister_peer name db = Inl (HTTPException 404 ''Peer not found'')"
    by (rule unregister_peer_unknown)
next
  assume "distinct (map username db) \<and> name \<in> set (map username db)"
  then show "\<exists>db5. unregister_peer name db = Inr db5 \<and> unregister_peer name db5 = Inr db5
           \<and> (\<forall>q\<in>set db5. username q = name \<longrightarrow> \<not> is_active q)"
    using unregister_peer_known by blast
next
  assume "distinct (map username db) \<and> q \<in> set db \<and> username q = name \<and> \<not> is_active q"
  then show "unregister_peer name db = Inr db"
    using unregister_peer_inactive by blast
qed

theorem registry_never_removes_witness:
  "register_peer 1150000000 (PeerRegister ''bob'' ''10.0.0.2'' 5001) [alice, carol] =
     Inr (bob, [alice, carol, bob])
   \<and> set (map username [alice, carol]) \<subseteq> set (map username [alice, carol, bob])
   \<and> heartbeat 1150000000 ''alice'' [alice, carol] =
       Inr (''alice'', [alice\<lparr>last_heartbeat := 1150000000\<rparr>, carol])
   \<and> map username [alice\<lparr>last_heartbeat := 1150000000\<rparr>, carol] = map username [alice, carol]
   \<and> cleanup_inactive_peers 1150000000 2 [alice, carol] = Inr (1, [alice\<lparr>is_active := False\<rparr>, carol])
   \<and> unregister_peer ''alice'' [alice, carol] = Inr [alice\<lparr>is_active := False\<rparr>, carol]
   \<and> only_deactivates [alice, carol] [alice\<lparr>is_active := False\<rparr>, carol]
   \<and> ''dave'' \<notin> set (map username [alice, carol])
   \<and> unregister_peer ''dave'' [alice, carol] = Inl (HTTPException 404 ''Peer not found'')
   \<and> distinct (map username [alice, carol]) \<and> ''alice'' \<in> set (map username [alice, carol])
   \<and> unregister_peer ''alice'' [alice\<lparr>is_active := False\<rparr>, carol] =
       Inr [alice\<lparr>is_active := False\<rparr>, carol]
   \<and> carol \<in> set [alice, carol] \<and> \<not> is_active carol
   \<and> unregister_peer ''carol'' [alice, carol] = Inr [alice, carol]"
  using registry_never_removes [of 1150000000 "PeerRegister ''bob'' ''10.0.0.2'' 5001"
      "[alice, carol]" bob "[alice, carol, bob]" "''alice''" "''alice''"
      "[alice\<lparr>last_heartbeat := 1150000000\<rparr>, carol]" 2 1
      "[alice\<lparr>is_active := False\<rparr>, carol]" "[alice\<lparr>is_active := False\<rparr>, carol]" alice]
    registry_never_removes [of 1150000000 "PeerRegister ''bob'' ''10.0.0.2'' 5001"
      "[alice, carol]" bob "[alice, carol, bob]" "''dave''" "''dave''"
      "[]" 2 1 "[alice\<lparr>is_active := False\<rparr>, carol]" "[]" alice]
    registry_never_removes [of 1150000000 "PeerRegister ''bob'' ''10.0.0.2'' 5001"
      "[alice, carol]" bob "[alice, carol, bob]" "''carol''" "''carol''"
      "[]" 2 1 "[alice\<lparr>is_active := False\<rparr>, carol]" "[alice, carol]" carol]
  by (simp add: alice_def bob_def carol_def register_peer_def heartbeat_def unregister_peer_def
        cleanup_inactive_peers_def timedelta_minutes_def datetime_sub_def datetime_max_def
        next_id_def only_deactivates_def Let_def numeral_3_eq_3)

text \<open>
  Claim C10. Registration checks nothing about the username: with unique usernames in the
  store, a registration under any username, the empty string included, returns a row
  with that username, the given host and port, \<open>is_active\<close> true and \<open>last_heartbeat\<close>
  the time of the call; the row is among the active peers afterwards. Under a username
  not yet in the store the row is appended; under a known one the row of that username is
  updated in host, port, heartbeat and \<open>is_active\<close>, and no row is added.
\<close>

theorem register_peer_any_username:
  assumes "distinct (map username db)"
  shows "\<exists>p db'. register_peer now (PeerRegister u h pt) db = Inr (p, db')
           \<and> username p = u \<and> host p = h \<and> port p = pt \<and> is_active p \<and> last_heartbeat p = now
           \<and> p \<in> set (get_active_peers db') \<and> distinct (map username db')
           \<and> (u \<notin> set (map username db) \<longrightarrow> db' = db @ [p])
           \<and> (u \<in> set (map username db) \<longrightarrow>
                 (\<exists>old. old \<in> set db \<and> username old = u
                    \<and> p = old\<lparr>host := h, port := pt, is_active := True, last_heartbeat := now\<rparr>
                    \<and> db' = map (\<lambda>q. if username q = u then p else q) db))"
proof (cases "u \<in> set (map username db)")
  case False
  then have f: "filter (\<lambda>q. username q = u) db = []"
    by (rule filter_username_unknown)
  define p where "p = \<lparr>peer_id = next_id db, username = u, host = h, port = pt,
                        is_active = True, last_heartbeat = now, created_at = now\<rparr>"
  from f have "register_peer now (PeerRegister u h pt) db = Inr (p, db @ [p])"
    by (simp add: register_peer_cases p_def Let_def)
  moreover have "username p = u \<and> host p = h \<and> port p = pt \<and> is_active p \<and> last_heartbeat p = now"
    by (simp add: p_def)
  moreover from this have "p \<in> set (get_active_peers (db @ [p]))"
    by (simp add: get_active_peers_def)
  moreover from assms False have "distinct (map username (db @ [p]))"
    by (simp add: p_def)
  ultimately show ?thesis using False by blast
next
  case True
  from filter_username_distinct [OF assms True] obtain old
    where old: "old \<in> set db" "username old = u" "filter (\<lambda>q. username q = u) db = [old]"
    by blast
  define p where "p = old\<lparr>host := h, port := pt, is_active := True, last_heartbeat := now\<rparr>"
  define db' where "db' = map (\<lambda>q. if username q = u then p else q) db"
  from old(3) have r: "register_peer now (PeerRegister u h pt) db = Inr (p, db')"
    by (simp add: register_peer_cases p_def db'_def Let_def)
  from old(2) have f: "username p = u \<and> host p = h \<and> port p = pt \<and> is_active p \<and> last_heartbeat p = now"
    by (simp add: p_def)
  from old(1,2) have "p \<in> set db'"
    by (force simp: db'_def)
  with f have a: "p \<in> set (get_active_peers db')"
    by (simp add: get_active_peers_def)
  from f have "username p = u" by simp
  with assms have d: "distinct (map username db')"
    unfolding db'_def by (rule distinct_map_replace)
  from old(1,2) have "\<exists>old. old \<in> set db \<and> username old = u
                    \<and> p = old\<lparr>host := h, port := pt, is_active := True, last_heartbeat := now\<rparr>
                    \<and> db' = map (\<lambda>q. if username q = u then p else q) db"
    unfolding p_def db'_def by blast
  with r f a d True show ?thesis by blast
qed

theorem register_peer_any_username_witness:
  "distinct (map username [alice, carol])
   \<and> [] \<notin> set (map username [alice, carol])
   \<and> register_peer 1150000000 (PeerRegister [] ''10.0.0.9'' 5009) [alice, carol] =
       Inr (anonymous, [alice, carol, anonymous])
   \<and> anonymous \<in> set (get_active_peers [alice, carol, anonymous])
   \<and> distinct (map username [alice, carol, anonymous\<lparr>is_active := False\<rparr>])
   \<and> [] \<in> set (map username [alice, carol, anonymous\<lparr>is_active := False\<rparr>])
   \<and> register_peer 1160000000 (PeerRegister [] ''10.0.0.8'' 5008)
         [alice, carol, anonymous\<lparr>is_active := False\<rparr>] =
       Inr (anonymous\<lparr>host := ''10.0.0.8'', port := 5008, last_heartbeat := 1160000000\<rparr>,
            [alice, carol,
             anonymous\<lparr>host := ''10.0.0.8'', port := 5008, last_heartbeat := 1160000000\<rparr>])"
proof -
  have fresh: "distinct (map username [alice, carol])"
    by (simp add: alice_def carol_def)
  have again: "distinct (map username [alice, carol, anonymous\<lparr>is_active := False\<rparr>])"
    by (simp add: alice_def carol_def anonymous_def)
  have run: "register_peer 1150000000 (PeerRegister [] ''10.0.0.9'' 5009) [alice, carol] =
       Inr (anonymous, [alice, carol, anonymous])
     \<and> register_peer 1160000000 (PeerRegister [] ''10.0.0.8'' 5008)
         [alice, carol, anonymous\<lparr>is_active := False\<rparr>] =
       Inr (anonymous\<lparr>host := ''10.0.0.8'', port := 5008, last_heartbeat := 1160000000\<rparr>,
            [alice, carol,
             anonymous\<lparr>host := ''10.0.0.8'', port := 5008, last_heartbeat := 1160000000\<rparr>])"
    by (simp add: alice_def carol_def anonymous_def register_peer_def next_id_def Let_def
          numeral_3_eq_3)
  from register_peer_any_username [OF fresh, of 1150000000 "[]" "''10.0.0.9''" 5009]
    register_peer_any_username [OF again, of 1160000000 "[]" "''10.0.0.8''" 5008]
    fresh again run
  show ?thesis
    by (auto simp: alice_def carol_def anonymous_def get_active_peers_def)
qed

section \<open>Properties of the node\<close>


lemma invoke_no_close: "invoke cb a ev = (ok, e) \<Longrightarrow> Closed c \<notin> set e"
  by (auto simp: invoke_def split: option.splits)

lemma send_message_state: "send_message w t k c s = (ok, s', e) \<Longrightarrow> s' = s"
  by (auto simp: send_message_def split: option.splits)

lemma broadcast_loop_eq:
  "broadcast_loop w t c ks s =
     (map (\<lambda>k. fst (send_message w t k c s)) ks, s,
      concat (map (\<lambda>k. snd (snd (send_message w t k c s))) ks))"
proof (induction ks)
  case Nil
  show ?case by simp
next
  case (Cons k ks)
  obtain r s1 e1 where sm: "send_message w t k c s = (r, s1, e1)"
    by (cases "send_message w t k c s") auto
  then have "s1 = s" by (rule send_message_state)
  with sm Cons show ?case by simp
qed

lemma broadcast_message_eq:
  "broadcast_message w t c s =
     (if connected_peers s = [] then (False, s, [])
      else (list_all (\<lambda>k. fst (send_message w t k c s)) (map fst (connected_peers s)), s,
            concat (map (\<lambda>k. snd (snd (send_message w t k c s))) (map fst (connected_peers s)))))"
  by (simp add: broadcast_message_def broadcast_loop_eq list_all_iff)

lemma concat_singletons:
  "concat (map (\<lambda>(k, ch). [g k ch]) al) = map (\<lambda>(k, ch). g k ch) al"
  by (induction al) auto

lemma map_keys_lookup:
  "distinct (map fst al) \<Longrightarrow> map (\<lambda>k. f (map_of al k)) (map fst al) = map (\<lambda>(k, v). f (Some v)) al"
proof (induction al)
  case Nil
  show ?case by simp
next
  case (Cons a al)
  obtain k v where a: "a = (k, v)" by (cases a)
  with Cons.prems have "k \<notin> fst ` set al" and d: "distinct (map fst al)" by auto
  then have "\<And>k'. k' \<in> set (map fst al) \<Longrightarrow> map_of ((k, v) # al) k' = map_of al k'"
    by auto
  then have "map (\<lambda>k'. f (map_of ((k, v) # al) k')) (map fst al) = map (\<lambda>k'. f (map_of al k')) (map fst al)"
    by (simp cong: map_cong)
  with Cons.IH [OF d] a show ?case by simp
qed

lemma broadcast_message_distinct:
  assumes "distinct (map fst (connected_peers s))"
  shows "broadcast_message w t c s =
     (connected_peers s \<noteq> [] \<and> list_all (\<lambda>(k, ch). w ch) (connected_peers s), s,
      map (\<lambda>(k, ch). Written ch (message_frame c t)) (connected_peers s))"
proof -
  have r: "map (\<lambda>k. fst (send_message w t k c s)) (map fst (connected_peers s)) =
        map (\<lambda>(k, ch). w ch) (connected_peers s)"
    using map_keys_lookup [OF assms, of "\<lambda>x. fst (case x of None \<Rightarrow> (False, s, []) | Some ch \<Rightarrow> (w ch, s, [Written ch (message_frame c t)]))"]
    by (simp add: send_message_def)
  have e: "map (\<lambda>k. snd (snd (send_message w t k c s))) (map fst (connected_peers s)) =
        map (\<lambda>(k, ch). [Written ch (message_frame c t)]) (connected_peers s)"
    using map_keys_lookup [OF assms, of "\<lambda>x. snd (snd (case x of None \<Rightarrow> (False, s, []) | Some ch \<Rightarrow> (w ch, s, [Written ch (message_frame c t)])))"]
    by (simp add: send_message_def)
  have l: "list_all (\<lambda>k. fst (send_message w t k c s)) (map fst (connected_peers s)) =
       list_all (\<lambda>r. r) (map (\<lambda>k. fst (send_message w t k c s)) (map fst (connected_peers s)))"
    by (simp add: list_all_iff)
  have c: "concat (map (\<lambda>(k, ch). [Written ch (message_frame c t)]) (connected_peers s)) =
      map (\<lambda>(k, ch). Written ch (message_frame c t)) (connected_peers s)"
    by (rule concat_singletons)
  show ?thesis
    unfolding broadcast_message_eq l r e c by (auto simp: list_all_iff)
qed












lemma receive_loop_ends:
  assumes "is_running s" and "stream_end r"
  shows "list_all (accepted s u) frames \<Longrightarrow>
     \<exists>e. receive_loop s u (frames @ r # rest) = (True, e) \<and> filter is_disconnect e = []"
proof (induction frames)
  case Nil
  from assms show ?case by (auto simp: stream_end_def)
next
  case (Cons a frames)
  then obtain e where e: "receive_loop s u (frames @ r # rest) = (True, e)" "filter is_disconnect e = []"
    by auto
  from Cons.prems obtain m c t where a: "a = RecvJson m" "dict_get m ''content'' = Some c"
    "dict_get m ''timestamp'' = Some t" "\<forall>f. on_message_callback s = Some f \<longrightarrow> f (u, c, t)"
    by (auto simp: accepted_def)
  show ?case
  proof (cases "on_message_callback s")
    case None
    with a e assms(1) show ?thesis by (simp add: invoke_def)
  next
    case (Some f)
    with a have "f (u, c, t)" by simp
    with Some a e assms(1) show ?thesis by (simp add: invoke_def)
  qed
qed

lemma listen_peer_messages_ends:
  assumes "is_running s" and "stream_end r" and "list_all (accepted s u) frames"
  shows "\<exists>st s' e. listen_peer_messages u (frames @ r # rest) s = (st, s', e) \<and> st \<noteq> Suspended
           \<and> s' = s\<lparr>connected_peers := AList.delete u (connected_peers s)\<rparr>
           \<and> filter is_disconnect e =
               (if u \<in> set (map fst (connected_peers s)) \<and> on_peer_disconnected_callback s \<noteq> None
                then [Notified (PeerDisconnected u)] else [])"
proof -
  from receive_loop_ends [OF assms]
  obtain e where e: "receive_loop s u (frames @ r # rest) = (True, e)" "filter is_disconnect e = []"
    by blast
  show ?thesis
  proof (cases "u \<in> set (map fst (connected_peers s))")
    case False
    then have "AList.delete u (connected_peers s) = connected_peers s"
      by simp
    with False e show ?thesis by (simp add: listen_peer_messages_def)
  next
    case True
    with e show ?thesis
      by (cases "on_peer_disconnected_callback s")
         (auto simp: listen_peer_messages_def invoke_def Let_def)
  qed
qed

lemma handle_peer_connection_ends:
  assumes "is_running s" and "stream_end r" and "list_all (accepted s u) frames"
    and "dict_get h ''type'' = Some (JStr ''handshake'')"
    and "Option.bind (dict_get h ''username'') dict_key = Some u"
    and "\<forall>f. on_peer_connected_callback s = Some f \<longrightarrow> f u"
  shows "\<exists>e. handle_peer_connection True ch (RecvJson h) (frames @ r # rest) s =
               (Returned, s\<lparr>connected_peers := AList.delete u (connected_peers s)\<rparr>, e @ [Closed ch])
           \<and> filter is_disconnect e =
               (if on_peer_disconnected_callback s \<noteq> None then [Notified (PeerDisconnected u)] else [])"
proof -
  define s1 where "s1 = s\<lparr>connected_peers := AList.update u ch (connected_peers s)\<rparr>"
  have "accepted s1 = accepted s"
    by (simp add: fun_eq_iff accepted_def s1_def)
  with assms(1,3) have run: "is_running s1" and acc: "list_all (accepted s1 u) frames"
    by (simp_all add: s1_def)
  from listen_peer_messages_ends [OF run assms(2) acc, of rest]
  obtain st s' e where l: "listen_peer_messages u (frames @ r # rest) s1 = (st, s', e)"
    and st: "st \<noteq> Suspended"
    and s': "s' = s1\<lparr>connected_peers := AList.delete u (connected_peers s1)\<rparr>"
    and ev: "filter is_disconnect e =
       (if u \<in> set (map fst (connected_peers s1)) \<and> on_peer_disconnected_callback s1 \<noteq> None
        then [Notified (PeerDisconnected u)] else [])"
    by blast
  have present: "u \<in> set (map fst (connected_peers s1))"
    by (simp add: s1_def dom_update)
  from s' have s2: "s' = s\<lparr>connected_peers := AList.delete u (connected_peers s)\<rparr>"
    by (simp add: s1_def delete_update_same)
  obtain ok e1 where c: "invoke (on_peer_connected_callback s1) u (PeerConnected u) = (ok, e1)"
    by (cases "invoke (on_peer_connected_callback s1) u (PeerConnected u)") auto
  with assms(6) have ok: "ok" and e1: "filter is_disconnect e1 = []"
    by (auto simp: invoke_def s1_def split: option.splits)
  define e2 where "e2 = [Written ch (handshake_ack_frame (node_username s1))]"
  from assms(4,5) c ok l st
  have "handle_peer_connection True ch (RecvJson h) (frames @ r # rest) s =
          (Returned, s', (e1 @ e2 @ e) @ [Closed ch])"
    by (cases st) (simp_all add: handle_peer_connection_def s1_def [symmetric] e2_def)
  moreover from e1 ev present
  have "filter is_disconnect (e1 @ e2 @ e) =
          (if on_peer_disconnected_callback s \<noteq> None then [Notified (PeerDisconnected u)] else [])"
    by (simp add: e2_def s1_def)
  ultimately show ?thesis using s2 by blast
qed



text \<open>The concrete nodes are states of a node.\<close>

lemma start_observed_node:
  "start True True True (HttpStatus 200) observed_node =
     (True, started_node, [TrackerCall (Register ''alice'' 5000)])"
  by (simp add: start_def observed_node_def started_node_def P2PNode_init_def
        register_to_tracker_def start_server_def)

lemma connect_started_node:
  "connect_to_peer (Some [bob]) dial_one True (RecvJson (handshake_ack_frame ''bob'')) ''bob''
       started_node =
     (True, bob_connected_node,
      [TrackerCall GetPeers, Written 1 (handshake_frame ''alice''),
       Notified (PeerConnected (KStr ''bob'')), TaskCreated (KStr ''bob'') 1])"
  by (simp add: connect_to_peer_def get_peers_from_tracker_def invoke_def bob_def
        handshake_ack_frame_def dial_one_def bob_connected_node_def observed_node_def
        started_node_def P2PNode_init_def)

lemma accept_carol:
  "handle_peer_connection True 2 (RecvJson (handshake_frame ''carol'')) [] bob_connected_node =
     (Suspended, bob_carol_node,
      [Notified (PeerConnected (KStr ''carol'')), Written 2 (handshake_ack_frame ''alice'')])"
  by (simp add: handle_peer_connection_def listen_peer_messages_def invoke_def
        handshake_frame_def bob_connected_node_def bob_carol_node_def observed_node_def
        started_node_def P2PNode_init_def)


lemma reachable_observed_node: "reachable observed_node"
  unfolding observed_node_def by (rule r_callbacks) (rule r_init)

lemma reachable_started_node: "reachable started_node"
  by (rule r_start [OF reachable_observed_node start_observed_node])

lemma reachable_bob_connected_node: "reachable bob_connected_node"
  by (rule r_connect [OF reachable_started_node connect_started_node])

lemma reachable_bob_carol_node: "reachable bob_carol_node"
  by (rule r_handle [OF reachable_bob_connected_node accept_carol])

text \<open>
  What \<^verbatim>\<open>_handle_peer_connection\<close> turns away: a first read that fails, is empty or
  does not decode, a decoded value that is no dict, and a dict whose \<^verbatim>\<open>type\<close> is not
  \<^verbatim>\<open>"handshake"\<close>. The writer is closed and nothing else happens.
\<close>

lemma handle_peer_connection_rejects:
  assumes "\<forall>h. first = RecvJson h \<longrightarrow> dict_get h ''type'' \<noteq> Some (JStr ''handshake'')"
  shows "handle_peer_connection w ch first reads s = (Returned, s, [Closed ch])"
  using assms
  by (cases first) (auto simp: handle_peer_connection_def split: option.splits)

text \<open>
  What \<^verbatim>\<open>stop\<close> does in every state: the node is not running, the table is empty,
  every writer of the table has been closed, the heartbeat task is not running, and
  \<open>server_task\<close> is what it was. A second \<^verbatim>\<open>stop\<close> leaves the object as the first left
  it and has no effect outside.
\<close>

lemma stop_result:
  "stop s = (s', e) \<Longrightarrow>
     \<not> is_running s' \<and> connected_peers s' = [] \<and> heartbeat_task s' \<noteq> Some Running
     \<and> (\<forall>ch \<in> snd ` set (connected_peers s). Closed ch \<in> set e)
     \<and> server_task s' = server_task s"
  by (cases "heartbeat_task s"; cases "the (heartbeat_task s)")
     (auto simp: stop_def Let_def)

lemma stop_twice: "stop (fst (stop s)) = (fst (stop s), [])"
proof -
  have "map_option cancel (map_option cancel (heartbeat_task s)) = map_option cancel (heartbeat_task s)"
    by (cases "heartbeat_task s"; cases "the (heartbeat_task s)") auto
  then show ?thesis
    by (cases "http_client s") (simp_all add: stop_def Let_def option.map_comp comp_def)
qed

text \<open>
  Claim C1. An inbound connection whose first frame is \<^verbatim>\<open>{"type": "handshake"}\<close>,
  a handshake frame with no username, is not turned away: on alice's started node the
  connection is stored in the table under the key \<^verbatim>\<open>None\<close>, the observer is told that
  a peer connected, the acknowledgement is written, and the handler goes on to the receive
  loop with the connection open.
\<close>

theorem handle_peer_connection_missing_username:
  "handle_peer_connection True 1 (RecvJson (JDict [(''type'', JStr ''handshake'')])) []
       started_node =
     (Suspended, started_node\<lparr>connected_peers := [(KNone, 1)]\<rparr>,
      [Notified (PeerConnected KNone), Written 1 (handshake_ack_frame ''alice'')])"
  by (simp add: handle_peer_connection_def listen_peer_messages_def invoke_def
        observed_node_def started_node_def P2PNode_init_def)




text \<open>
  Claim C3. On alice's node, a \<^verbatim>\<open>start\<close> whose registration is answered with status
  500, or whose request fails, returns \<open>False\<close>; afterwards the node is marked as running,
  its HTTP client is open, and the server task is serving on the listening socket. No
  heartbeat task has been started.
\<close>

theorem start_registration_failure_keeps_server:
  "start True True True (HttpStatus 500) observed_node =
     (False, observed_node\<lparr>is_running := True, http_client := Some ClientOpen,
                           server_task := Some Running\<rparr>,
      [TrackerCall (Register ''alice'' 5000)])
   \<and> start True True True HttpError observed_node =
     (False, observed_node\<lparr>is_running := True, http_client := Some ClientOpen,
                           server_task := Some Running\<rparr>,
      [TrackerCall (Register ''alice'' 5000)])
   \<and> server_task (fst (snd (start True True True (HttpStatus 500) observed_node))) = Some Running
   \<and> heartbeat_task (fst (snd (start True True True (HttpStatus 500) observed_node))) = None"
  by (simp add: start_def observed_node_def P2PNode_init_def register_to_tracker_def
        start_server_def)

text \<open>
  Claim C4. \<^verbatim>\<open>stop\<close> on alice's started node with connections to bob and carol sends
  the unregistration, closes both connections, empties the table, closes the client and
  cancels the heartbeat task; the server task is still serving on the listening socket
  afterwards. A second \<^verbatim>\<open>stop\<close> changes nothing.
\<close>

theorem stop_keeps_server_task:
  "stop bob_carol_node =
     (started_node\<lparr>is_running := False, http_client := Some ClientClosed,
                    heartbeat_task := Some Cancelled\<rparr>,
      [TrackerCall (Unregister ''alice''), Closed 1, Closed 2])
   \<and> server_task (fst (stop bob_carol_node)) = Some Running
   \<and> stop (fst (stop bob_carol_node)) = (fst (stop bob_carol_node), [])"
  by (simp add: stop_def bob_carol_node_def observed_node_def started_node_def P2PNode_init_def)

text \<open>
  What the end of a receive loop does in general. On a running node, when the receive
  loop of peer \<open>u\<close> reads end of stream or bytes that do not decode, after any frames
  it accepted, the loop ends; the table afterwards is the table without \<open>u\<close>; the loop
  emits exactly one \<^verbatim>\<open>peer_disconnected\<close> event, for \<open>u\<close>, when the entry was still
  there and a disconnected callback is set, and none otherwise. For an inbound
  connection, whose loop runs inside the handler, the handler then closes the connection
  and returns.
\<close>

lemma receive_loop_end:
  assumes "is_running s" and "stream_end r" and "list_all (accepted s u) frames"
  shows "(\<exists>st s' e. listen_peer_messages u (frames @ r # rest) s = (st, s', e) \<and> st \<noteq> Suspended
            \<and> s' = s\<lparr>connected_peers := AList.delete u (connected_peers s)\<rparr>
            \<and> u \<notin> set (map fst (connected_peers s'))
            \<and> filter is_disconnect e =
                (if u \<in> set (map fst (connected_peers s)) \<and> on_peer_disconnected_callback s \<noteq> None
                 then [Notified (PeerDisconnected u)] else []))
         \<and> (dict_get h ''type'' = Some (JStr ''handshake'')
              \<and> Option.bind (dict_get h ''username'') dict_key = Some u
              \<and> (\<forall>f. on_peer_connected_callback s = Some f \<longrightarrow> f u) \<longrightarrow>
             (\<exists>e. handle_peer_connection True ch (RecvJson h) (frames @ r # rest) s =
                     (Returned, s\<lparr>connected_peers := AList.delete u (connected_peers s)\<rparr>,
                      e @ [Closed ch])
                \<and> filter is_disconnect e =
                    (if on_peer_disconnected_callback s \<noteq> None
                     then [Notified (PeerDisconnected u)] else [])))"
proof (intro conjI impI)
  from listen_peer_messages_ends [OF assms, of rest]
  obtain st s' e where l: "listen_peer_messages u (frames @ r # rest) s = (st, s', e)"
    "st \<noteq> Suspended" "s' = s\<lparr>connected_peers := AList.delete u (connected_peers s)\<rparr>"
    "filter is_disconnect e =
       (if u \<in> set (map fst (connected_peers s)) \<and> on_peer_disconnected_callback s \<noteq> None
        then [Notified (PeerDisconnected u)] else [])"
    by blast
  from l(3) have "u \<notin> set (map fst (connected_peers s'))"
    by (simp add: delete_notin_dom)
  with l show "\<exists>st s' e. listen_peer_messages u (frames @ r # rest) s = (st, s', e) \<and> st \<noteq> Suspended
            \<and> s' = s\<lparr>connected_peers := AList.delete u (connected_peers s)\<rparr>
            \<and> u \<notin> set (map fst (connected_peers s'))
            \<and> filter is_disconnect e =
                (if u \<in> set (map fst (connected_peers s)) \<and> on_peer_disconnected_callback s \<noteq> None
                 then [Notified (PeerDisconnected u)] else [])"
    by blast
next
  assume "dict_get h ''type'' = Some (JStr ''handshake'')
              \<and> Option.bind (dict_get h ''username'') dict_key = Some u
              \<and> (\<forall>f. on_peer_connected_callback s = Some f \<longrightarrow> f u)"
  with handle_peer_connection_ends [OF assms, of h ch rest]
  show "\<exists>e. handle_peer_connection True ch (RecvJson h) (frames @ r # rest) s =
                     (Returned, s\<lparr>connected_peers := AList.delete u (connected_peers s)\<rparr>,
                      e @ [Closed ch])
                \<and> filter is_disconnect e =
                    (if on_peer_disconnected_callback s \<noteq> None
                     then [Notified (PeerDisconnected u)] else [])"
    by blast
qed

text \<open>
  Claim C5. Alice's node connects to bob, outbound, on connection 1; the receive loop
  of that connection, which runs as a task of its own, then reads end of stream. The loop
  returns, bob's entry is removed and one \<^verbatim>\<open>peer_disconnected\<close> event for bob is
  emitted, but connection 1 is not closed. The same end of stream on an inbound
  connection from bob is followed by the handler closing the connection.
\<close>

theorem outbound_receive_loop_end_leaves_channel_open:
  "connect_to_peer (Some [bob]) dial_one True (RecvJson (handshake_ack_frame ''bob'')) ''bob''
       started_node =
     (True, bob_connected_node,
      [TrackerCall GetPeers, Written 1 (handshake_frame ''alice''),
       Notified (PeerConnected (KStr ''bob'')), TaskCreated (KStr ''bob'') 1])
   \<and> listen_peer_messages (KStr ''bob'') [RecvEof] bob_connected_node =
       (Returned, started_node, [Notified (PeerDisconnected (KStr ''bob''))])
   \<and> Closed 1 \<notin> set [Notified (PeerDisconnected (KStr ''bob''))]
   \<and> handle_peer_connection True 1 (RecvJson (handshake_frame ''bob'')) [RecvEof] started_node =
       (Returned, started_node,
        [Notified (PeerConnected (KStr ''bob'')), Written 1 (handshake_ack_frame ''alice''),
         Notified (PeerDisconnected (KStr ''bob'')), Closed 1])"
  by (simp add: connect_to_peer_def get_peers_from_tracker_def invoke_def bob_def
        handshake_ack_frame_def handshake_frame_def dial_one_def bob_connected_node_def
        observed_node_def started_node_def P2PNode_init_def listen_peer_messages_def
        handle_peer_connection_def)

text \<open>
  Claim C6. \<^verbatim>\<open>broadcast_message\<close> fails at once on an empty table. Otherwise it
  calls \<^verbatim>\<open>send_message\<close> once for every key of the table as it was at the call, in
  the order of the table, whatever the earlier calls returned: its effects are the
  effects of all these calls, and its result is \<open>True\<close> exactly when every call returned
  \<open>True\<close>. With pairwise different keys that is one write on the connection of every
  entry, and \<open>True\<close> exactly when the table is not empty and every write succeeded.
\<close>

theorem broadcast_message_sends_to_all:
  "broadcast_message w t c s =
     (if connected_peers s = [] then (False, s, [])
      else (list_all (\<lambda>k. fst (send_message w t k c s)) (map fst (connected_peers s)), s,
            concat (map (\<lambda>k. snd (snd (send_message w t k c s))) (map fst (connected_peers s)))))
   \<and> (distinct (map fst (connected_peers s)) \<longrightarrow>
        broadcast_message w t c s =
          (connected_peers s \<noteq> [] \<and> list_all (\<lambda>(k, ch). w ch) (connected_peers s), s,
           map (\<lambda>(k, ch). Written ch (message_frame c t)) (connected_peers s)))"
  using broadcast_message_eq [of w t c s] broadcast_message_distinct [of s w t c]
  by blast

theorem broadcast_message_sends_to_all_witness:
  "distinct (map fst (connected_peers bob_carol_node))
   \<and> \<not> fails_on_one 1 \<and> fails_on_one 2
   \<and> broadcast_message fails_on_one ''2024-01-01T00:00:00'' ''hi'' bob_carol_node =
       (False, bob_carol_node,
        [Written 1 (message_frame ''hi'' ''2024-01-01T00:00:00''),
         Written 2 (message_frame ''hi'' ''2024-01-01T00:00:00'')])
   \<and> broadcast_message fails_on_one ''2024-01-01T00:00:00'' ''hi'' started_node =
       (False, started_node, [])"
proof -
  have t: "connected_peers bob_carol_node = [(KStr ''bob'', 1), (KStr ''carol'', 2)]"
    and t0: "connected_peers started_node = []"
    by (simp_all add: bob_carol_node_def started_node_def observed_node_def P2PNode_init_def)
  have d: "distinct (map fst (connected_peers bob_carol_node))"
    by (simp add: t)
  have w: "\<not> fails_on_one 1 \<and> fails_on_one 2"
    by (simp add: fails_on_one_def)
  from broadcast_message_sends_to_all
         [of fails_on_one "''2024-01-01T00:00:00''" "''hi''" bob_carol_node] d
  have "broadcast_message fails_on_one ''2024-01-01T00:00:00'' ''hi'' bob_carol_node =
          (connected_peers bob_carol_node \<noteq> []
             \<and> list_all (\<lambda>(k, ch). fails_on_one ch) (connected_peers bob_carol_node),
           bob_carol_node,
           map (\<lambda>(k, ch). Written ch (message_frame ''hi'' ''2024-01-01T00:00:00''))
             (connected_peers bob_carol_node))"
    by blast
  then have b: "broadcast_message fails_on_one ''2024-01-01T00:00:00'' ''hi'' bob_carol_node =
       (False, bob_carol_node,
        [Written 1 (message_frame ''hi'' ''2024-01-01T00:00:00''),
         Written 2 (message_frame ''hi'' ''2024-01-01T00:00:00'')])"
    by (simp add: t fails_on_one_def)
  from broadcast_message_sends_to_all
         [of fails_on_one "''2024-01-01T00:00:00''" "''hi''" started_node]
  have b0: "broadcast_message fails_on_one ''2024-01-01T00:00:00'' ''hi'' started_node =
       (False, started_node, [])"
    by (simp add: t0)
  from d w b b0 show ?thesis by simp
qed

text \<open>
  Claim C7. When the table has no entry for the peer, \<^verbatim>\<open>send_message\<close> returns
  \<open>False\<close>, the failure it reports for a peer that is not connected; the object, its
  table included, is unchanged and nothing is written.
\<close>

theorem send_message_not_connected:
  "peer_username \<notin> set (map fst (connected_peers s)) \<Longrightarrow>
     send_message w t peer_username content s = (False, s, [])"
proof -
  assume "peer_username \<notin> set (map fst (connected_peers s))"
  then have "map_of (connected_peers s) peer_username = None"
    by (simp add: map_of_eq_None_iff)
  then show ?thesis by (simp add: send_message_def)
qed

theorem send_message_not_connected_witness:
  "KStr ''carol'' \<notin> set (map fst (connected_peers bob_connected_node))
   \<and> send_message fails_on_one ''2024-01-01T00:00:00'' (KStr ''carol'') ''hi'' bob_connected_node =
       (False, bob_connected_node, [])"
proof -
  have absent: "KStr ''carol'' \<notin> set (map fst (connected_peers bob_connected_node))"
    by (simp add: bob_connected_node_def)
  from send_message_not_connected [OF absent, of fails_on_one "''2024-01-01T00:00:00''" "''hi''"]
    absent
  show ?thesis by simp
qed

end
